theory Spec2Isabelle
  imports Complex_Main "HOL-Library.Sublist"
begin

section \<open>The Gemini proxy function (netlify/functions/gemini-proxy.js)\<close>

text \<open>
  The repository is one asynchronous function, \<open>handler(event)\<close>. It validates the
  inbound request, reads the secret key from the environment, calls the upstream API once
  and translates the upstream answer into a response.

  The handler is modelled line by line as a pure function of the inbound event and of
  the platform it runs on. Everything the handler obtains from outside its own text is
  a field of the record \<open>platform\<close>: the result of \<open>JSON.parse\<close>, the environment
  variable, the behaviour of \<open>fetch\<close>, and the few engine-defined details (the error
  objects the engine raises, number formatting, number coercion). The value computed is
  a record holding what the returned promise settles to (a response, or the exception
  that escaped), the \<open>console.error\<close> calls in order and the \<open>fetch\<close> calls in order.
\<close>

subsection \<open>JavaScript values\<close>

text \<open>
  A number is an IEEE double: a finite double is a rational, and \<open>-0\<close> is not
  distinguished from \<open>0\<close> (the handler only tests truthiness and \<open>> 0\<close>).
\<close>

datatype js_number = NaN | PosInfinity | NegInfinity | Finite rat

text \<open>
  The values that \<open>JSON.parse\<close> and \<open>response.json()\<close> produce, and \<open>undefined\<close>.
  An object lists its own properties in enumeration order. Strings are \<open>string\<close>; every
  string literal of the handler is ASCII.
\<close>

datatype jsval =
    JUndefined
  | JNull
  | JBool bool
  | JNum js_number
  | JStr string
  | JArr "jsval list"
  | JObj "(string \<times> jsval) list"

text \<open>An exception object: its \<open>name\<close> and its \<open>message\<close>.\<close>

datatype js_error = JsError (err_name: string) (message: string)

text \<open>A property key: \<open>v.name\<close> or \<open>v[i]\<close>.\<close>

datatype prop_key = Named string | Indexed nat

subsection \<open>Requests, responses, platform\<close>

text \<open>The inbound event: \<open>event.httpMethod\<close>, and \<open>event.body\<close>, which is a string or \<open>null\<close>.\<close>

record event =
  httpMethod :: string
  body :: "string option"

text \<open>
  The object the handler returns: \<open>{ statusCode, headers, body }\<close>; \<open>headers\<close> is
  \<open>None\<close> where the returned object has no such property.
\<close>

record http_response =
  statusCode :: nat
  headers :: "(string \<times> string) list option"
  response_body :: string

text \<open>The arguments of the call of \<open>fetch\<close>: the URL and the init object.\<close>

record fetch_request =
  url :: string
  request_method :: string
  request_headers :: "(string \<times> string) list"
  request_body :: string

text \<open>
  The upstream \<open>Response\<close>, as far as the handler reads it: \<open>response.ok\<close>,
  \<open>response.status\<close>, and what \<open>await response.text()\<close> and \<open>await response.json()\<close>
  give (either may reject).
\<close>

record upstream_response =
  ok :: bool
  status :: nat
  text_result :: "js_error + string"
  json_result :: "js_error + jsval"

text \<open>
  The platform.
  \<^item> \<open>JSON_parse\<close>: \<open>JSON.parse\<close> on a string; \<open>Inl\<close> is the \<open>SyntaxError\<close> thrown.
  \<^item> \<open>GEMINI_API_KEY\<close>: \<open>process.env.GEMINI_API_KEY\<close>, a string or \<open>undefined\<close>.
  \<^item> \<open>fetch\<close>: what \<open>await fetch(url, init)\<close> gives; \<open>Inl\<close> is the rejection.
  \<^item> \<open>read_error v k\<close>: the \<open>TypeError\<close> the engine raises on reading property \<open>k\<close>
    of \<open>v\<close>, for \<open>v\<close> \<open>undefined\<close> or \<open>null\<close>.
  \<^item> \<open>destructure_error v\<close>: the \<open>TypeError\<close> the engine raises on destructuring
    \<open>v\<close>, for \<open>v\<close> \<open>undefined\<close> or \<open>null\<close>.
  \<^item> \<open>Number_toString\<close>: the decimal text of a finite number.
  \<^item> \<open>StringToNumber\<close>, \<open>ObjectToNumber\<close>: the coercion \<open>ToNumber\<close> on a string and on
    an array or object (the latter may throw).
\<close>

record platform =
  JSON_parse :: "string \<Rightarrow> js_error + jsval"
  GEMINI_API_KEY :: "string option"
  fetch :: "fetch_request \<Rightarrow> js_error + upstream_response"
  read_error :: "jsval \<Rightarrow> prop_key \<Rightarrow> js_error"
  destructure_error :: "jsval \<Rightarrow> js_error"
  Number_toString :: "js_number \<Rightarrow> string"
  StringToNumber :: "string \<Rightarrow> js_number"
  ObjectToNumber :: "jsval \<Rightarrow> js_error + js_number"

text \<open>An argument of \<open>console.error\<close>, and the result of one invocation.\<close>

datatype log_arg = LogStr string | LogErr js_error

record invocation =
  outcome :: "js_error + http_response"
  logged :: "log_arg list list"
  fetched :: "fetch_request list"

subsection \<open>The language operations the handler uses\<close>

text \<open>Sequencing of steps that may throw.\<close>

definition bindE :: "'e + 'a \<Rightarrow> ('a \<Rightarrow> 'e + 'b) \<Rightarrow> 'e + 'b" where
  "bindE m f = (case m of Inl e \<Rightarrow> Inl e | Inr v \<Rightarrow> f v)"

text \<open>\<open>ToBoolean\<close>: \<open>!v\<close> is \<open>\<not> truthy v\<close>.\<close>

fun truthy :: "jsval \<Rightarrow> bool" where
  "truthy JUndefined = False"
| "truthy JNull = False"
| "truthy (JBool b) = b"
| "truthy (JNum n) = (n \<noteq> NaN \<and> n \<noteq> Finite 0)"
| "truthy (JStr s) = (s \<noteq> [])"
| "truthy (JArr xs) = True"
| "truthy (JObj kvs) = True"

text \<open>Decimal digits of a natural number, as \<open>${response.status}\<close> prints a status.\<close>

fun show_nat :: "nat \<Rightarrow> string" where
  "show_nat n =
     (if n < 10 then [''0123456789'' ! n]
      else show_nat (n div 10) @ [''0123456789'' ! (n mod 10)])"

declare show_nat.simps [simp del]

fun nullish :: "jsval \<Rightarrow> bool" where
  "nullish JUndefined = True"
| "nullish JNull = True"
| "nullish v = False"

text \<open>
  Reading a property of a value that is neither \<open>undefined\<close> nor \<open>null\<close>. A primitive
  or an array has none of the names the handler reads (\<open>prompt\<close>, \<open>systemPrompt\<close>,
  \<open>candidates\<close>, \<open>content\<close>, \<open>parts\<close>, \<open>text\<close>) except \<open>length\<close>, and no built-in
  prototype defines them. An index is always given as \<open>Indexed\<close>. The \<open>length\<close> of a
  string is its number of characters; the handler only compares it with \<open>0\<close>.
\<close>

fun own_prop :: "jsval \<Rightarrow> prop_key \<Rightarrow> jsval" where
  "own_prop (JObj kvs) (Named k) = (case map_of kvs k of None \<Rightarrow> JUndefined | Some v \<Rightarrow> v)"
| "own_prop (JObj kvs) (Indexed i) =
     (case map_of kvs (show_nat i) of None \<Rightarrow> JUndefined | Some v \<Rightarrow> v)"
| "own_prop (JArr xs) (Named k) =
     (if k = ''length'' then JNum (Finite (of_nat (length xs))) else JUndefined)"
| "own_prop (JArr xs) (Indexed i) = (if i < length xs then xs ! i else JUndefined)"
| "own_prop (JStr s) (Named k) =
     (if k = ''length'' then JNum (Finite (of_nat (length s))) else JUndefined)"
| "own_prop (JStr s) (Indexed i) = (if i < length s then JStr [s ! i] else JUndefined)"
| "own_prop v k = JUndefined"

text \<open>\<open>v.k\<close> and \<open>v[i]\<close>: a \<open>TypeError\<close> on \<open>undefined\<close> and \<open>null\<close>.\<close>

definition get_prop :: "platform \<Rightarrow> jsval \<Rightarrow> prop_key \<Rightarrow> js_error + jsval" where
  "get_prop p v k = (if nullish v then Inl (read_error p v k) else Inr (own_prop v k))"

text \<open>\<open>const { prompt, systemPrompt } = body\<close>.\<close>

definition destructure :: "platform \<Rightarrow> jsval \<Rightarrow> js_error + jsval \<times> jsval" where
  "destructure p v =
     (if nullish v then Inl (destructure_error p v)
      else Inr (own_prop v (Named ''prompt''), own_prop v (Named ''systemPrompt'')))"

text \<open>\<open>ToNumber\<close>, and the comparison \<open>v > 0\<close>.\<close>

fun ToNumber :: "platform \<Rightarrow> jsval \<Rightarrow> js_error + js_number" where
  "ToNumber p JUndefined = Inr NaN"
| "ToNumber p JNull = Inr (Finite 0)"
| "ToNumber p (JBool b) = Inr (Finite (if b then 1 else 0))"
| "ToNumber p (JNum n) = Inr n"
| "ToNumber p (JStr s) = Inr (StringToNumber p s)"
| "ToNumber p v = ObjectToNumber p v"

fun positive :: "js_number \<Rightarrow> bool" where
  "positive NaN = False"
| "positive PosInfinity = True"
| "positive NegInfinity = False"
| "positive (Finite r) = (0 < r)"

definition gt_zero :: "platform \<Rightarrow> jsval \<Rightarrow> js_error + bool" where
  "gt_zero p v = bindE (ToNumber p v) (\<lambda>n. Inr (positive n))"

subsection \<open>\<open>JSON.stringify\<close>\<close>

definition hex_digit :: "nat \<Rightarrow> char" where
  "hex_digit n = ''0123456789abcdef'' ! (n mod 16)"

text \<open>\<open>QuoteJSONString\<close>, one character at a time.\<close>

definition quote_char :: "char \<Rightarrow> string" where
  "quote_char c =
     (if c = CHR 0x22 then [CHR 0x5C, CHR 0x22]
      else if c = CHR 0x5C then [CHR 0x5C, CHR 0x5C]
      else if c = CHR 0x08 then [CHR 0x5C, CHR ''b'']
      else if c = CHR 0x0C then [CHR 0x5C, CHR ''f'']
      else if c = CHR 0x0A then [CHR 0x5C, CHR ''n'']
      else if c = CHR 0x0D then [CHR 0x5C, CHR ''r'']
      else if c = CHR 0x09 then [CHR 0x5C, CHR ''t'']
      else if (of_char c :: nat) < 32
        then [CHR 0x5C, CHR ''u'', CHR ''0'', CHR ''0'',
              hex_digit (of_char c div 16), hex_digit (of_char c)]
      else [c])"

definition QuoteJSONString :: "string \<Rightarrow> string" where
  "QuoteJSONString s = [CHR 0x22] @ concat (map quote_char s) @ [CHR 0x22]"

fun join_comma :: "string list \<Rightarrow> string" where
  "join_comma [] = []"
| "join_comma [x] = x"
| "join_comma (x # y # ys) = x @ '','' @ join_comma (y # ys)"

fun is_finite :: "js_number \<Rightarrow> bool" where
  "is_finite (Finite r) = True"
| "is_finite n = False"

text \<open>
  \<open>SerializeJSONProperty\<close>: \<open>None\<close> is \<open>undefined\<close>, which an object omits and an array
  prints as \<open>null\<close>.
\<close>

fun serialize :: "platform \<Rightarrow> jsval \<Rightarrow> string option" where
  "serialize p JUndefined = None"
| "serialize p JNull = Some ''null''"
| "serialize p (JBool b) = Some (if b then ''true'' else ''false'')"
| "serialize p (JNum n) = Some (if is_finite n then Number_toString p n else ''null'')"
| "serialize p (JStr s) = Some (QuoteJSONString s)"
| "serialize p (JArr xs) =
     Some (''['' @ join_comma (map (\<lambda>x. case serialize p x of None \<Rightarrow> ''null'' | Some t \<Rightarrow> t) xs)
           @ '']'')"
| "serialize p (JObj kvs) =
     Some (''{'' @ join_comma (concat (map (\<lambda>kv.
              case serialize p (snd kv) of None \<Rightarrow> []
              | Some t \<Rightarrow> [QuoteJSONString (fst kv) @ '':'' @ t]) kvs))
           @ ''}'')"

text \<open>
  \<open>JSON.stringify\<close> of an object literal is always a string: the case \<open>None\<close> below
  does not arise (lemma \<open>serialize_JObj\<close>).
  A string is copied character by character: a string with a lone surrogate, which
  \<open>string\<close> cannot hold, is outside the model.
\<close>

definition JSON_stringify :: "platform \<Rightarrow> (string \<times> jsval) list \<Rightarrow> string" where
  "JSON_stringify p kvs = (case serialize p (JObj kvs) of None \<Rightarrow> [] | Some t \<Rightarrow> t)"

subsection \<open>The handler\<close>

text \<open>An invocation that returns a response without logging or calling out.\<close>

definition respond :: "nat \<Rightarrow> string \<Rightarrow> invocation" where
  "respond code msg =
     \<lparr>outcome = Inr \<lparr>statusCode = code, headers = None, response_body = msg\<rparr>,
      logged = [], fetched = []\<rparr>"

text \<open>
  The branch \<open>if (!apiKey)\<close>: one \<open>console.error\<close> line, then the generic 500.
\<close>

definition config_missing :: invocation where
  "config_missing =
     \<lparr>outcome = Inr \<lparr>statusCode = 500, headers = None,
        response_body = ''Internal Server Error: API configuration missing.''\<rparr>,
      logged = [[LogStr ''GEMINI_API_KEY is not set in Netlify environment.'']],
      fetched = []\<rparr>"

definition apiUrl :: "string \<Rightarrow> string" where
  "apiUrl apiKey =
     ''https://generativelanguage.googleapis.com/v1beta/models/gemini-2.5-flash-preview-09-2025:generateContent?key=''
     @ apiKey"

text \<open>\<open>systemPrompt || ""\<close>.\<close>

definition or_empty :: "jsval \<Rightarrow> jsval" where
  "or_empty systemPrompt = (if truthy systemPrompt then systemPrompt else JStr [])"

definition payload :: "jsval \<Rightarrow> jsval \<Rightarrow> (string \<times> jsval) list" where
  "payload prompt systemPrompt =
     [(''contents'', JArr [JObj [(''parts'', JArr [JObj [(''text'', prompt)]])]]),
      (''systemInstruction'', JObj [(''parts'', JArr [JObj [(''text'', or_empty systemPrompt)]])])]"

definition upstream_request :: "platform \<Rightarrow> string \<Rightarrow> jsval \<Rightarrow> jsval \<Rightarrow> fetch_request" where
  "upstream_request p apiKey prompt systemPrompt =
     \<lparr>url = apiUrl apiKey, request_method = ''POST'',
      request_headers = [(''Content-Type'', ''application/json'')],
      request_body = JSON_stringify p (payload prompt systemPrompt)\<rparr>"

text \<open>
  The condition \<open>result.candidates && result.candidates.length > 0\<close>: the right operand
  is evaluated only when the left one is truthy.
\<close>

definition has_candidates :: "platform \<Rightarrow> jsval \<Rightarrow> js_error + bool" where
  "has_candidates p result =
     bindE (get_prop p result (Named ''candidates'')) (\<lambda>c.
       if truthy c then
         bindE (get_prop p result (Named ''candidates'')) (\<lambda>c'.
         bindE (get_prop p c' (Named ''length'')) (\<lambda>len. gt_zero p len))
       else Inr False)"

text \<open>\<open>result.candidates[0].content.parts[0].text\<close>.\<close>

definition first_text :: "platform \<Rightarrow> jsval \<Rightarrow> js_error + jsval" where
  "first_text p result =
     bindE (get_prop p result (Named ''candidates'')) (\<lambda>candidates.
     bindE (get_prop p candidates (Indexed 0)) (\<lambda>candidate.
     bindE (get_prop p candidate (Named ''content'')) (\<lambda>content.
     bindE (get_prop p content (Named ''parts'')) (\<lambda>parts.
     bindE (get_prop p parts (Indexed 0)) (\<lambda>part.
     get_prop p part (Named ''text''))))))"

text \<open>
  The body of the \<open>try\<close> block, given the request: the response it returns together
  with what it logged before returning, or the exception it throws. The request is built
  by \<open>upstream_request\<close>, which cannot throw.
\<close>

definition try_block ::
  "platform \<Rightarrow> fetch_request \<Rightarrow> js_error + http_response \<times> log_arg list list" where
  "try_block p req =
     bindE (fetch p req) (\<lambda>response.
       if \<not> ok response then
         bindE (text_result response) (\<lambda>errorText.
           Inr (\<lparr>statusCode = status response, headers = None,
                  response_body = ''Gemini API Error: '' @ errorText\<rparr>,
                [[LogStr (''Gemini API error: '' @ show_nat (status response)),
                  LogStr errorText]]))
       else
         bindE (json_result response) (\<lambda>result.
         bindE (has_candidates p result) (\<lambda>some.
           if some then
             bindE (first_text p result) (\<lambda>text.
               Inr (\<lparr>statusCode = 200,
                      headers = Some [(''Content-Type'', ''application/json'')],
                      response_body = JSON_stringify p [(''text'', text)]\<rparr>, []))
           else
             Inr (\<lparr>statusCode = 500, headers = None,
                    response_body = ''Gemini API returned no candidates.''\<rparr>, []))))"

text \<open>The \<open>try\<close> statement with its \<open>catch\<close> clause.\<close>

definition call_upstream :: "platform \<Rightarrow> fetch_request \<Rightarrow> invocation" where
  "call_upstream p req =
     (case try_block p req of
        Inr (resp, logs) \<Rightarrow> \<lparr>outcome = Inr resp, logged = logs, fetched = [req]\<rparr>
      | Inl error \<Rightarrow>
          \<lparr>outcome = Inr \<lparr>statusCode = 500, headers = None,
             response_body = ''Internal Server Error: '' @ message error\<rparr>,
           logged = [[LogStr ''Error calling Gemini API:'', LogErr error]],
           fetched = [req]\<rparr>)"

text \<open>
  \<open>handler\<close>. \<open>JSON.parse(event.body)\<close> converts a \<open>null\<close> body to the string
  \<open>null\<close> first. The destructuring stands outside every \<open>try\<close>: its exception
  escapes the handler.
\<close>

definition handler :: "platform \<Rightarrow> event \<Rightarrow> invocation" where
  \<open>handler p event =
     (if httpMethod event \<noteq> ''POST'' then respond 405 ''Method Not Allowed''
      else
        case JSON_parse p (case body event of None \<Rightarrow> ''null'' | Some s \<Rightarrow> s) of
          Inl error \<Rightarrow> respond 400 ''Bad Request: Invalid JSON.''
        | Inr parsed \<Rightarrow>
            (case destructure p parsed of
               Inl error \<Rightarrow> \<lparr>outcome = Inl error, logged = [], fetched = []\<rparr>
             | Inr (prompt, systemPrompt) \<Rightarrow>
                 if \<not> truthy prompt then respond 400 ''Bad Request: "prompt" is required.''
                 else
                   (case GEMINI_API_KEY p of
                      None \<Rightarrow> config_missing
                    | Some apiKey \<Rightarrow>
                        if apiKey = [] then config_missing
                        else call_upstream p (upstream_request p apiKey prompt systemPrompt))))\<close>

subsection \<open>Observations and the payload of the specification\<close>

text \<open>The status and the body of the response, when the handler returns one.\<close>

definition reply_status :: "invocation \<Rightarrow> nat option" where
  "reply_status i = (case outcome i of Inl e \<Rightarrow> None | Inr r \<Rightarrow> Some (statusCode r))"

definition reply_body :: "invocation \<Rightarrow> string option" where
  "reply_body i = (case outcome i of Inl e \<Rightarrow> None | Inr r \<Rightarrow> Some (response_body r))"

text \<open>
  The payload in the words of the specification: the system instruction holds
  \<open>systemPrompt\<close>, or the empty string if \<open>systemPrompt\<close> is not provided. It is
  compared with \<open>payload\<close>, which is the handler's.
\<close>

definition spec_payload :: "jsval \<Rightarrow> jsval \<Rightarrow> (string \<times> jsval) list" where
  "spec_payload prompt systemPrompt =
     [(''contents'', JArr [JObj [(''parts'', JArr [JObj [(''text'', prompt)]])]]),
      (''systemInstruction'', JObj [(''parts'', JArr [JObj [(''text'',
         (if systemPrompt = JUndefined then JStr [] else systemPrompt))]])])]"

subsection \<open>A platform for worked examples\<close>

text \<open>
  The examples run on a platform with a stubbed upstream. Its \<open>JSON.parse\<close> is given
  on the request texts the examples use, where it agrees with the real one; every other
  text, among them the malformed \<open>{"prompt":\<close>, is rejected. Its error objects carry
  the wording of V8.
\<close>

definition quoted :: "string \<Rightarrow> string" where
  "quoted s = [CHR 0x27] @ s @ [CHR 0x27]"

definition v8_read_error :: "jsval \<Rightarrow> prop_key \<Rightarrow> js_error" where
  "v8_read_error v k =
     JsError ''TypeError''
       (''Cannot read properties of '' @ (if v = JNull then ''null'' else ''undefined'')
        @ '' (reading '' @ quoted (case k of Named n \<Rightarrow> n | Indexed i \<Rightarrow> show_nat i) @ '')'')"

definition v8_destructure_error :: "jsval \<Rightarrow> js_error" where
  "v8_destructure_error v =
     JsError ''TypeError''
       (''Cannot destructure property '' @ quoted ''prompt'' @ '' of '' @ quoted ''body''
        @ '' as it is '' @ (if v = JNull then ''null'' else ''undefined'') @ ''.'')"

definition stub_parse :: "string \<Rightarrow> js_error + jsval" where
  \<open>stub_parse s =
     (if s = ''null'' then Inr JNull
      else if s = ''{"prompt":"hello"}'' then Inr (JObj [(''prompt'', JStr ''hello'')])
      else if s = ''{"prompt":"hello","systemPrompt":false}''
        then Inr (JObj [(''prompt'', JStr ''hello''), (''systemPrompt'', JBool False)])
      else Inl (JsError ''SyntaxError'' ''Unexpected token''))\<close>

definition stub_platform :: "(js_error + upstream_response) \<Rightarrow> platform" where
  "stub_platform answer =
     \<lparr>JSON_parse = stub_parse,
      GEMINI_API_KEY = Some ''secret-key'',
      fetch = (\<lambda>req. answer),
      read_error = v8_read_error,
      destructure_error = v8_destructure_error,
      Number_toString = (\<lambda>n. ''0''),
      StringToNumber = (\<lambda>s. NaN),
      ObjectToNumber = (\<lambda>v. Inr NaN)\<rparr>"

text \<open>An upstream answer with a success status and the JSON body \<open>v\<close>.\<close>

definition answer_json :: "jsval \<Rightarrow> js_error + upstream_response" where
  "answer_json v =
     Inr \<lparr>ok = True, status = 200,
          text_result = Inl (JsError ''TypeError'' ''Body is unusable''),
          json_result = Inr v\<rparr>"

text \<open>An upstream answer with a failure status and a plain text body.\<close>

definition answer_error :: "nat \<Rightarrow> string \<Rightarrow> js_error + upstream_response" where
  "answer_error code txt =
     Inr \<lparr>ok = False, status = code, text_result = Inr txt,
          json_result = Inl (JsError ''SyntaxError'' ''Unexpected token'')\<rparr>"

text \<open>The upstream body with one candidate whose text is \<open>world\<close>.\<close>

definition world_answer :: jsval where
  "world_answer =
     JObj [(''candidates'',
       JArr [JObj [(''content'', JObj [(''parts'', JArr [JObj [(''text'', JStr ''world'')]])])]])]"

definition post_hello :: event where
  \<open>post_hello = \<lparr>httpMethod = ''POST'', body = Some ''{"prompt":"hello"}''\<rparr>\<close>

section \<open>Properties of the handler\<close>

subsection \<open>Auxiliary facts\<close>

lemma bindE_Inr [simp]: "bindE (Inr v) f = f v"
  by (simp add: bindE_def)

lemma bindE_Inl [simp]: "bindE (Inl e) f = Inl e"
  by (simp add: bindE_def)

lemma get_prop_JObj [simp]:
  "get_prop p (JObj kvs) (Named k) = Inr (case map_of kvs k of None \<Rightarrow> JUndefined | Some v \<Rightarrow> v)"
  by (simp add: get_prop_def)

lemma get_prop_JArr_0 [simp]: "get_prop p (JArr (x # xs)) (Indexed 0) = Inr x"
  by (simp add: get_prop_def)

lemma get_prop_JArr_empty [simp]: "get_prop p (JArr []) (Indexed 0) = Inr JUndefined"
  by (simp add: get_prop_def)

lemma get_prop_JArr_length [simp]:
  "get_prop p (JArr xs) (Named ''length'') = Inr (JNum (Finite (of_nat (length xs))))"
  by (simp add: get_prop_def)

lemma get_prop_JUndefined [simp]: "get_prop p JUndefined k = Inl (read_error p JUndefined k)"
  by (simp add: get_prop_def)

lemma gt_zero_length [simp]: "gt_zero p (JNum (Finite (of_nat n))) = Inr (0 < n)"
  by (simp add: gt_zero_def)

text \<open>The serialisation of an object is never \<open>undefined\<close>.\<close>

lemma serialize_JObj: "serialize p (JObj kvs) = Some (JSON_stringify p kvs)"
  by (simp add: JSON_stringify_def)

lemma JSON_stringify_text:
  \<open>JSON_stringify p [(''text'', JStr s)] = ''{"text":'' @ QuoteJSONString s @ ''}''\<close>
  by (simp add: JSON_stringify_def QuoteJSONString_def quote_char_def)

lemma show_nat_429: "show_nat 429 = ''429''"
  by (simp add: show_nat.simps [of 429] show_nat.simps [of 42] show_nat.simps [of 4])

text \<open>
  A POST whose body parses to an object with a truthy \<open>prompt\<close>, on a platform whose key
  is set, reaches the \<open>try\<close> statement with the request built from the body.
\<close>

lemma handler_reaches_upstream:
  assumes "httpMethod ev = ''POST''"
    and "JSON_parse p (case body ev of None \<Rightarrow> ''null'' | Some s \<Rightarrow> s) = Inr (JObj members)"
    and "map_of members ''prompt'' = Some prompt"
    and "truthy prompt"
    and "GEMINI_API_KEY p = Some apiKey"
    and "apiKey \<noteq> []"
  shows "handler p ev =
    call_upstream p (upstream_request p apiKey prompt (own_prop (JObj members) (Named ''systemPrompt'')))"
  using assms by (simp add: handler_def destructure_def)

lemma fetched_call_upstream: "fetched (call_upstream p req) = [req]"
  by (simp add: call_upstream_def split: sum.split prod.split)

lemma has_candidates_absent:
  "map_of rmembers ''candidates'' = None \<Longrightarrow> has_candidates p (JObj rmembers) = Inr False"
  by (simp add: has_candidates_def)

lemma has_candidates_JArr:
  "map_of rmembers ''candidates'' = Some (JArr xs) \<Longrightarrow>
   has_candidates p (JObj rmembers) = Inr (xs \<noteq> [])"
  by (simp add: has_candidates_def)

text \<open>
  A body that parses to \<open>null\<close> (the text \<open>null\<close>, or no body at all) makes the
  destructuring throw; nothing catches the exception.
\<close>

lemma handler_null_body:
  assumes "httpMethod ev = ''POST''"
    and "JSON_parse p (case body ev of None \<Rightarrow> ''null'' | Some s \<Rightarrow> s) = Inr JNull"
  shows "handler p ev = \<lparr>outcome = Inl (destructure_error p JNull), logged = [], fetched = []\<rparr>"
  using assms by (simp add: handler_def destructure_def)

text \<open>Every other JSON value without a truthy \<open>prompt\<close> is answered with status 400.\<close>

lemma handler_prompt_required:
  assumes "httpMethod ev = ''POST''"
    and "JSON_parse p (case body ev of None \<Rightarrow> ''null'' | Some s \<Rightarrow> s) = Inr parsed"
    and "\<not> nullish parsed"
    and "\<not> truthy (own_prop parsed (Named ''prompt''))"
  shows \<open>handler p ev =
    \<lparr>outcome = Inr \<lparr>statusCode = 400, headers = None,
       response_body = ''Bad Request: "prompt" is required.''\<rparr>,
     logged = [], fetched = []\<rparr>\<close>
  using assms by (simp add: handler_def destructure_def respond_def)

text \<open>
  The handler throws in that case only: whenever its promise rejects, the request was
  a POST whose body parsed to \<open>undefined\<close> or \<open>null\<close>, and the exception is the one of
  the destructuring.
\<close>

lemma outcome_call_upstream: "\<exists>resp. outcome (call_upstream p req) = Inr resp"
  by (simp add: call_upstream_def split: sum.split prod.split)

lemma handler_throws_only_on_nullish:
  assumes "outcome (handler p ev) = Inl e"
  shows "httpMethod ev = ''POST'' \<and>
    (\<exists>parsed. JSON_parse p (case body ev of None \<Rightarrow> ''null'' | Some s \<Rightarrow> s) = Inr parsed
       \<and> nullish parsed \<and> e = destructure_error p parsed)"
proof -
  have no_throw: "outcome (call_upstream p req) \<noteq> Inl e" for req
    using outcome_call_upstream [of p req] by auto
  show ?thesis
    using assms no_throw
    by (auto simp add: handler_def respond_def config_missing_def destructure_def
        split: if_splits sum.splits option.splits prod.splits)
qed

subsection \<open>The success path\<close>

text \<open>
  Claim C1. A POST with a JSON body holding a truthy \<open>prompt\<close>, with the key set, to
  which the upstream answers with a success status and a body whose first candidate
  has a first content part with text \<open>t\<close>, is answered with status 200, the JSON content
  type and the body \<open>JSON.stringify({ text: t })\<close>; nothing is logged and the upstream is
  called once. With prompt \<open>hello\<close>, no \<open>systemPrompt\<close> and an upstream candidate with
  text \<open>world\<close> the body is \<open>{"text":"world"}\<close> (the witness).
\<close>

theorem handler_success:
  assumes "httpMethod ev = ''POST''"
    and "JSON_parse p (case body ev of None \<Rightarrow> ''null'' | Some s \<Rightarrow> s) = Inr (JObj members)"
    and "map_of members ''prompt'' = Some prompt"
    and "truthy prompt"
    and "GEMINI_API_KEY p = Some apiKey"
    and "apiKey \<noteq> []"
    and "req = upstream_request p apiKey prompt (own_prop (JObj members) (Named ''systemPrompt''))"
    and "fetch p req = Inr r"
    and "ok r"
    and "json_result r = Inr (JObj rmembers)"
    and "map_of rmembers ''candidates'' = Some (JArr (JObj candidate # others))"
    and "map_of candidate ''content'' = Some (JObj content)"
    and "map_of content ''parts'' = Some (JArr (JObj part # parts))"
    and "map_of part ''text'' = Some t"
  shows "handler p ev =
    \<lparr>outcome = Inr \<lparr>statusCode = 200,
       headers = Some [(''Content-Type'', ''application/json'')],
       response_body = JSON_stringify p [(''text'', t)]\<rparr>,
     logged = [], fetched = [req]\<rparr>"
proof -
  have "has_candidates p (JObj rmembers) = Inr True"
    using assms(11) by (simp add: has_candidates_JArr)
  moreover have "first_text p (JObj rmembers) = Inr t"
    using assms(11-14) by (simp add: first_text_def)
  ultimately have "try_block p req =
    Inr (\<lparr>statusCode = 200, headers = Some [(''Content-Type'', ''application/json'')],
          response_body = JSON_stringify p [(''text'', t)]\<rparr>, [])"
    using assms(8-10) by (simp add: try_block_def)
  then show ?thesis
    using handler_reaches_upstream [OF assms(1-6)] assms(7) by (simp add: call_upstream_def)
qed

theorem handler_success_witness:
  \<open>handler (stub_platform (answer_json world_answer)) post_hello =
    \<lparr>outcome = Inr \<lparr>statusCode = 200,
       headers = Some [(''Content-Type'', ''application/json'')],
       response_body = ''{"text":"world"}''\<rparr>,
     logged = [],
     fetched = [upstream_request (stub_platform (answer_json world_answer)) ''secret-key''
       (JStr ''hello'') JUndefined]\<rparr>\<close>
  using handler_success [of post_hello
      "stub_platform (answer_json world_answer)" "[(''prompt'', JStr ''hello'')]" "JStr ''hello''"
      "''secret-key''" _ _ _ "[(''content'', JObj [(''parts'', JArr [JObj [(''text'', JStr ''world'')]])])]"
      "[]" "[(''parts'', JArr [JObj [(''text'', JStr ''world'')]])]" "[(''text'', JStr ''world'')]" "[]"
      "JStr ''world''"]
  by (simp add: stub_platform_def stub_parse_def answer_json_def world_answer_def post_hello_def
      JSON_stringify_text QuoteJSONString_def quote_char_def)

subsection \<open>Missing configuration\<close>

text \<open>
  Claim C2. A POST with a JSON body holding a truthy \<open>prompt\<close>, on a platform whose key
  is absent (or empty), is answered with status 500 and a fixed generic message. The
  whole invocation is a constant: it holds nothing of the platform or of the request.
  The cause is written by \<open>console.error\<close> only, the text logged does not occur in the
  response body, and the upstream is not called.
\<close>

theorem handler_missing_credential:
  assumes "httpMethod ev = ''POST''"
    and "JSON_parse p (case body ev of None \<Rightarrow> ''null'' | Some s \<Rightarrow> s) = Inr (JObj members)"
    and "map_of members ''prompt'' = Some prompt"
    and "truthy prompt"
    and "GEMINI_API_KEY p = None \<or> GEMINI_API_KEY p = Some []"
  shows "handler p ev =
      \<lparr>outcome = Inr \<lparr>statusCode = 500, headers = None,
         response_body = ''Internal Server Error: API configuration missing.''\<rparr>,
       logged = [[LogStr ''GEMINI_API_KEY is not set in Netlify environment.'']],
       fetched = []\<rparr>
    \<and> \<not> sublist ''GEMINI_API_KEY is not set in Netlify environment.''
          ''Internal Server Error: API configuration missing.''"
proof
  show "handler p ev =
      \<lparr>outcome = Inr \<lparr>statusCode = 500, headers = None,
         response_body = ''Internal Server Error: API configuration missing.''\<rparr>,
       logged = [[LogStr ''GEMINI_API_KEY is not set in Netlify environment.'']],
       fetched = []\<rparr>"
    using assms by (auto simp add: handler_def destructure_def config_missing_def)
  show "\<not> sublist ''GEMINI_API_KEY is not set in Netlify environment.''
          ''Internal Server Error: API configuration missing.''"
    by (simp add: sublist_code(3))
qed

theorem handler_missing_credential_witness:
  \<open>handler (stub_platform (answer_json world_answer)\<lparr>GEMINI_API_KEY := None\<rparr>) post_hello =
      \<lparr>outcome = Inr \<lparr>statusCode = 500, headers = None,
         response_body = ''Internal Server Error: API configuration missing.''\<rparr>,
       logged = [[LogStr ''GEMINI_API_KEY is not set in Netlify environment.'']],
       fetched = []\<rparr>\<close>
  using handler_missing_credential [of post_hello
      "stub_platform (answer_json world_answer)\<lparr>GEMINI_API_KEY := None\<rparr>"
      "[(''prompt'', JStr ''hello'')]" "JStr ''hello''"]
  by (simp add: stub_platform_def stub_parse_def post_hello_def)

subsection \<open>The upstream payload\<close>

text \<open>
  Claim C3, as the code has it. A POST with a JSON body holding a truthy \<open>prompt\<close>, with
  the key set, makes exactly one upstream call: a POST to the model's URL with the
  key as query parameter, the JSON content type, and as body the serialisation of a
  \<open>contents\<close> list with one entry whose one part holds \<open>prompt\<close>, and a
  \<open>systemInstruction\<close> whose one part holds \<open>systemPrompt\<close> when that is truthy and the
  empty string otherwise (when it is absent, and also when it is \<open>null\<close>, \<open>false\<close>,
  \<open>0\<close> or empty).
\<close>

theorem handler_payload:
  assumes "httpMethod ev = ''POST''"
    and "JSON_parse p (case body ev of None \<Rightarrow> ''null'' | Some s \<Rightarrow> s) = Inr (JObj members)"
    and "map_of members ''prompt'' = Some prompt"
    and "truthy prompt"
    and "GEMINI_API_KEY p = Some apiKey"
    and "apiKey \<noteq> []"
    and "systemPrompt = (case map_of members ''systemPrompt'' of None \<Rightarrow> JUndefined | Some v \<Rightarrow> v)"
  shows "fetched (handler p ev) =
    [\<lparr>url = ''https://generativelanguage.googleapis.com/v1beta/models/gemini-2.5-flash-preview-09-2025:generateContent?key='' @ apiKey,
      request_method = ''POST'',
      request_headers = [(''Content-Type'', ''application/json'')],
      request_body = JSON_stringify p
        [(''contents'', JArr [JObj [(''parts'', JArr [JObj [(''text'', prompt)]])]]),
         (''systemInstruction'', JObj [(''parts'', JArr [JObj [(''text'',
            (if truthy systemPrompt then systemPrompt else JStr []))]])])]\<rparr>]"
  using handler_reaches_upstream [OF assms(1-6)] assms(7)
  by (simp add: fetched_call_upstream upstream_request_def payload_def or_empty_def apiUrl_def)

theorem handler_payload_witness:
  \<open>map request_body (fetched (handler (stub_platform (answer_json world_answer)) post_hello)) =
    [''{"contents":[{"parts":[{"text":"hello"}]}],"systemInstruction":{"parts":[{"text":""}]}}'']\<close>
  using handler_payload [of post_hello
      "stub_platform (answer_json world_answer)" "[(''prompt'', JStr ''hello'')]" "JStr ''hello''"
      "''secret-key''" JUndefined]
  by (simp add: stub_platform_def stub_parse_def post_hello_def JSON_stringify_def
      QuoteJSONString_def quote_char_def)

text \<open>
  The claim as stated fails where \<open>systemPrompt\<close> is provided and falsy: for the body
  \<open>{"prompt":"hello","systemPrompt":false}\<close> the part sent holds the empty string, not
  \<open>false\<close>.
\<close>

theorem payload_falsy_systemPrompt_counterexample:
  \<open>map request_body (fetched (handler (stub_platform (answer_json world_answer))
      \<lparr>httpMethod = ''POST'', body = Some ''{"prompt":"hello","systemPrompt":false}''\<rparr>))
   \<noteq> [JSON_stringify (stub_platform (answer_json world_answer))
         (spec_payload (JStr ''hello'') (JBool False))]\<close>
  by (simp add: handler_def destructure_def stub_platform_def stub_parse_def call_upstream_def
      upstream_request_def payload_def or_empty_def spec_payload_def JSON_stringify_def
      QuoteJSONString_def quote_char_def split: sum.split prod.split)

subsection \<open>Upstream failures\<close>

text \<open>
  Claim C4. When the upstream answers the handler's request with a failure status \<open>N\<close>
  and the body text \<open>B\<close>, the handler reads \<open>B\<close>, logs the status and \<open>B\<close>, and answers
  with the same status \<open>N\<close> and the message \<open>Gemini API Error: \<close> followed by \<open>B\<close>.
  An upstream 429 with body \<open>rate limited\<close> gives status 429 and a message that
  contains \<open>rate limited\<close> (the witness).
\<close>

theorem handler_upstream_error:
  assumes "httpMethod ev = ''POST''"
    and "JSON_parse p (case body ev of None \<Rightarrow> ''null'' | Some s \<Rightarrow> s) = Inr (JObj members)"
    and "map_of members ''prompt'' = Some prompt"
    and "truthy prompt"
    and "GEMINI_API_KEY p = Some apiKey"
    and "apiKey \<noteq> []"
    and "req = upstream_request p apiKey prompt (own_prop (JObj members) (Named ''systemPrompt''))"
    and "fetch p req = Inr r"
    and "\<not> ok r"
    and "status r = N"
    and "text_result r = Inr B"
  shows "handler p ev =
    \<lparr>outcome = Inr \<lparr>statusCode = N, headers = None,
       response_body = ''Gemini API Error: '' @ B\<rparr>,
     logged = [[LogStr (''Gemini API error: '' @ show_nat N), LogStr B]],
     fetched = [req]\<rparr>"
proof -
  have "try_block p req =
    Inr (\<lparr>statusCode = N, headers = None, response_body = ''Gemini API Error: '' @ B\<rparr>,
         [[LogStr (''Gemini API error: '' @ show_nat N), LogStr B]])"
    using assms(8-11) by (simp add: try_block_def)
  then show ?thesis
    using handler_reaches_upstream [OF assms(1-6)] assms(7) by (simp add: call_upstream_def)
qed

theorem handler_upstream_error_witness:
  \<open>handler (stub_platform (answer_error 429 ''rate limited'')) post_hello =
    \<lparr>outcome = Inr \<lparr>statusCode = 429, headers = None,
       response_body = ''Gemini API Error: rate limited''\<rparr>,
     logged = [[LogStr ''Gemini API error: 429'', LogStr ''rate limited'']],
     fetched = [upstream_request (stub_platform (answer_error 429 ''rate limited''))
       ''secret-key'' (JStr ''hello'') JUndefined]\<rparr>
   \<and> sublist ''rate limited'' ''Gemini API Error: rate limited''\<close>
proof
  show \<open>handler (stub_platform (answer_error 429 ''rate limited'')) post_hello =
    \<lparr>outcome = Inr \<lparr>statusCode = 429, headers = None,
       response_body = ''Gemini API Error: rate limited''\<rparr>,
     logged = [[LogStr ''Gemini API error: 429'', LogStr ''rate limited'']],
     fetched = [upstream_request (stub_platform (answer_error 429 ''rate limited''))
       ''secret-key'' (JStr ''hello'') JUndefined]\<rparr>\<close>
    using handler_upstream_error [of post_hello
      "stub_platform (answer_error 429 ''rate limited'')" "[(''prompt'', JStr ''hello'')]"
      "JStr ''hello''" "''secret-key''" _ _ 429 "''rate limited''"] show_nat_429
    by (simp add: stub_platform_def stub_parse_def answer_error_def post_hello_def)
  show "sublist ''rate limited'' ''Gemini API Error: rate limited''"
    by (simp add: sublist_code(3))
qed

text \<open>
  Claim C9. When the upstream call itself fails with an error \<open>e\<close>, the handler logs
  \<open>e\<close> and answers with status 500 and the message \<open>Internal Server Error: \<close> followed
  by the message of \<open>e\<close>.
\<close>

theorem handler_transport_error:
  assumes "httpMethod ev = ''POST''"
    and "JSON_parse p (case body ev of None \<Rightarrow> ''null'' | Some s \<Rightarrow> s) = Inr (JObj members)"
    and "map_of members ''prompt'' = Some prompt"
    and "truthy prompt"
    and "GEMINI_API_KEY p = Some apiKey"
    and "apiKey \<noteq> []"
    and "req = upstream_request p apiKey prompt (own_prop (JObj members) (Named ''systemPrompt''))"
    and "fetch p req = Inl e"
  shows "handler p ev =
    \<lparr>outcome = Inr \<lparr>statusCode = 500, headers = None,
       response_body = ''Internal Server Error: '' @ message e\<rparr>,
     logged = [[LogStr ''Error calling Gemini API:'', LogErr e]],
     fetched = [req]\<rparr>"
proof -
  have "try_block p req = Inl e"
    using assms(8) by (simp add: try_block_def)
  then show ?thesis
    using handler_reaches_upstream [OF assms(1-6)] assms(7) by (simp add: call_upstream_def)
qed

theorem handler_transport_error_witness:
  \<open>handler (stub_platform (Inl (JsError ''TypeError'' ''fetch failed''))) post_hello =
    \<lparr>outcome = Inr \<lparr>statusCode = 500, headers = None,
       response_body = ''Internal Server Error: fetch failed''\<rparr>,
     logged = [[LogStr ''Error calling Gemini API:'',
       LogErr (JsError ''TypeError'' ''fetch failed'')]],
     fetched = [upstream_request (stub_platform (Inl (JsError ''TypeError'' ''fetch failed'')))
       ''secret-key'' (JStr ''hello'') JUndefined]\<rparr>\<close>
  using handler_transport_error [of post_hello
      "stub_platform (Inl (JsError ''TypeError'' ''fetch failed''))"
      "[(''prompt'', JStr ''hello'')]" "JStr ''hello''" "''secret-key''" _
      "JsError ''TypeError'' ''fetch failed''"]
  by (simp add: stub_platform_def stub_parse_def post_hello_def)

subsection \<open>Candidates\<close>

text \<open>
  Claim C6. When the upstream answers with a success status and a JSON object whose
  \<open>candidates\<close> is absent or an empty list, the handler answers with status 500 and the
  fixed message \<open>Gemini API returned no candidates.\<close>, and logs nothing.
\<close>

theorem handler_no_candidates:
  assumes "httpMethod ev = ''POST''"
    and "JSON_parse p (case body ev of None \<Rightarrow> ''null'' | Some s \<Rightarrow> s) = Inr (JObj members)"
    and "map_of members ''prompt'' = Some prompt"
    and "truthy prompt"
    and "GEMINI_API_KEY p = Some apiKey"
    and "apiKey \<noteq> []"
    and "req = upstream_request p apiKey prompt (own_prop (JObj members) (Named ''systemPrompt''))"
    and "fetch p req = Inr r"
    and "ok r"
    and "json_result r = Inr (JObj rmembers)"
    and "map_of rmembers ''candidates'' = None \<or> map_of rmembers ''candidates'' = Some (JArr [])"
  shows "handler p ev =
    \<lparr>outcome = Inr \<lparr>statusCode = 500, headers = None,
       response_body = ''Gemini API returned no candidates.''\<rparr>,
     logged = [], fetched = [req]\<rparr>"
proof -
  have "has_candidates p (JObj rmembers) = Inr False"
    using assms(11) by (auto simp add: has_candidates_absent has_candidates_JArr)
  then have "try_block p req =
    Inr (\<lparr>statusCode = 500, headers = None,
          response_body = ''Gemini API returned no candidates.''\<rparr>, [])"
    using assms(8-10) by (simp add: try_block_def)
  then show ?thesis
    using handler_reaches_upstream [OF assms(1-6)] assms(7) by (simp add: call_upstream_def)
qed

theorem handler_no_candidates_witness:
  \<open>handler (stub_platform (answer_json (JObj [(''candidates'', JArr [])]))) post_hello =
    \<lparr>outcome = Inr \<lparr>statusCode = 500, headers = None,
       response_body = ''Gemini API returned no candidates.''\<rparr>,
     logged = [],
     fetched = [upstream_request (stub_platform (answer_json (JObj [(''candidates'', JArr [])])))
       ''secret-key'' (JStr ''hello'') JUndefined]\<rparr>\<close>
  using handler_no_candidates [of post_hello
      "stub_platform (answer_json (JObj [(''candidates'', JArr [])]))"
      "[(''prompt'', JStr ''hello'')]" "JStr ''hello''" "''secret-key''" _ _
      "[(''candidates'', JArr [])]"]
  by (simp add: stub_platform_def stub_parse_def answer_json_def post_hello_def)

text \<open>
  Claim C10. When the upstream answers with a success status and a non-empty candidate
  list whose first candidate has no \<open>content\<close>, or a \<open>content\<close> without \<open>parts\<close>, or
  with an empty \<open>parts\<close> list, reading the text raises a \<open>TypeError\<close> \<open>e\<close> inside the
  \<open>try\<close> block. The handler does not throw: it logs \<open>e\<close> and answers with status 500
  and the message \<open>Internal Server Error: \<close> followed by the message of \<open>e\<close>.
\<close>

theorem handler_malformed_candidate:
  assumes "httpMethod ev = ''POST''"
    and "JSON_parse p (case body ev of None \<Rightarrow> ''null'' | Some s \<Rightarrow> s) = Inr (JObj members)"
    and "map_of members ''prompt'' = Some prompt"
    and "truthy prompt"
    and "GEMINI_API_KEY p = Some apiKey"
    and "apiKey \<noteq> []"
    and "req = upstream_request p apiKey prompt (own_prop (JObj members) (Named ''systemPrompt''))"
    and "fetch p req = Inr r"
    and "ok r"
    and "json_result r = Inr (JObj rmembers)"
    and "map_of rmembers ''candidates'' = Some (JArr (JObj candidate # others))"
    and "map_of candidate ''content'' = None \<and> e = read_error p JUndefined (Named ''parts'')
       \<or> map_of candidate ''content'' = Some (JObj content)
         \<and> map_of content ''parts'' = None \<and> e = read_error p JUndefined (Indexed 0)
       \<or> map_of candidate ''content'' = Some (JObj content)
         \<and> map_of content ''parts'' = Some (JArr []) \<and> e = read_error p JUndefined (Named ''text'')"
  shows "handler p ev =
    \<lparr>outcome = Inr \<lparr>statusCode = 500, headers = None,
       response_body = ''Internal Server Error: '' @ message e\<rparr>,
     logged = [[LogStr ''Error calling Gemini API:'', LogErr e]],
     fetched = [req]\<rparr>"
proof -
  have "has_candidates p (JObj rmembers) = Inr True"
    using assms(11) by (simp add: has_candidates_JArr)
  moreover have "first_text p (JObj rmembers) = Inl e"
    using assms(11,12) by (auto simp add: first_text_def)
  ultimately have "try_block p req = Inl e"
    using assms(8-10) by (simp add: try_block_def)
  then show ?thesis
    using handler_reaches_upstream [OF assms(1-6)] assms(7) by (simp add: call_upstream_def)
qed

theorem handler_malformed_candidate_witness:
  \<open>handler (stub_platform (answer_json (JObj [(''candidates'', JArr [JObj []])]))) post_hello =
    \<lparr>outcome = Inr \<lparr>statusCode = 500, headers = None,
       response_body = ''Internal Server Error: '' @
         message (v8_read_error JUndefined (Named ''parts''))\<rparr>,
     logged = [[LogStr ''Error calling Gemini API:'',
       LogErr (v8_read_error JUndefined (Named ''parts''))]],
     fetched = [upstream_request
       (stub_platform (answer_json (JObj [(''candidates'', JArr [JObj []])])))
       ''secret-key'' (JStr ''hello'') JUndefined]\<rparr>\<close>
  using handler_malformed_candidate [of post_hello
      "stub_platform (answer_json (JObj [(''candidates'', JArr [JObj []])]))"
      "[(''prompt'', JStr ''hello'')]" "JStr ''hello''" "''secret-key''" _ _
      "[(''candidates'', JArr [JObj []])]" "[]" "[]"
      "v8_read_error JUndefined (Named ''parts'')" "[]"]
  by (simp add: stub_platform_def stub_parse_def answer_json_def post_hello_def)

subsection \<open>Rejected requests\<close>

text \<open>
  Claim C7, as the code has it. A request whose method is not \<open>POST\<close> is answered with
  status 405 and the fixed body \<open>Method Not Allowed\<close>. The invocation is a constant: the
  body is not parsed, the platform is not read, nothing is logged and the upstream is
  not called.
\<close>

theorem handler_method_not_allowed:
  assumes "httpMethod ev \<noteq> ''POST''"
  shows "handler p ev =
    \<lparr>outcome = Inr \<lparr>statusCode = 405, headers = None,
       response_body = ''Method Not Allowed''\<rparr>,
     logged = [], fetched = []\<rparr>"
  using assms by (simp add: handler_def respond_def)

theorem handler_method_not_allowed_witness:
  \<open>handler (stub_platform (answer_json world_answer))
      \<lparr>httpMethod = ''GET'', body = Some ''{"prompt":"hello"}''\<rparr> =
    \<lparr>outcome = Inr \<lparr>statusCode = 405, headers = None,
       response_body = ''Method Not Allowed''\<rparr>,
     logged = [], fetched = []\<rparr>\<close>
  using handler_method_not_allowed [of "\<lparr>httpMethod = ''GET'', body = Some ''{\"prompt\":\"hello\"}''\<rparr>"
      "stub_platform (answer_json world_answer)"]
  by simp

text \<open>The body of the 405 response is not empty, so the claim as stated fails.\<close>

theorem method_not_allowed_body_counterexample:
  "reply_body (handler (stub_platform (answer_json world_answer))
      \<lparr>httpMethod = ''GET'', body = None\<rparr>) \<noteq> Some []"
  by (simp add: handler_def respond_def reply_body_def)

text \<open>
  Claim C8. A POST whose body is not valid JSON is answered with status 400 and the
  message \<open>Bad Request: Invalid JSON.\<close>; the invocation ends there: nothing is logged
  and the upstream is not called.
\<close>

theorem handler_invalid_json:
  assumes "httpMethod ev = ''POST''"
    and "JSON_parse p (case body ev of None \<Rightarrow> ''null'' | Some s \<Rightarrow> s) = Inl err"
  shows "handler p ev =
    \<lparr>outcome = Inr \<lparr>statusCode = 400, headers = None,
       response_body = ''Bad Request: Invalid JSON.''\<rparr>,
     logged = [], fetched = []\<rparr>"
  using assms by (simp add: handler_def respond_def)

theorem handler_invalid_json_witness:
  \<open>handler (stub_platform (answer_json world_answer))
      \<lparr>httpMethod = ''POST'', body = Some ''{"prompt":''\<rparr> =
    \<lparr>outcome = Inr \<lparr>statusCode = 400, headers = None,
       response_body = ''Bad Request: Invalid JSON.''\<rparr>,
     logged = [], fetched = []\<rparr>\<close>
  using handler_invalid_json [of "\<lparr>httpMethod = ''POST'', body = Some ''{\"prompt\":''\<rparr>"
      "stub_platform (answer_json world_answer)" "JsError ''SyntaxError'' ''Unexpected token''"]
  by (simp add: stub_platform_def stub_parse_def)

text \<open>
  Claim C5 fails on the code at the JSON text \<open>null\<close>: it is valid JSON without a
  \<open>prompt\<close>, and the handler returns no response at all. The \<open>TypeError\<close> of the
  destructuring escapes, so the status is not 400.
\<close>

theorem handler_null_body_throws:
  \<open>handler (stub_platform (answer_json world_answer))
      \<lparr>httpMethod = ''POST'', body = Some ''null''\<rparr> =
    \<lparr>outcome = Inl (v8_destructure_error JNull), logged = [], fetched = []\<rparr>
   \<and> reply_status (handler (stub_platform (answer_json world_answer))
      \<lparr>httpMethod = ''POST'', body = Some ''null''\<rparr>) \<noteq> Some 400\<close>
  by (simp add: handler_null_body stub_platform_def stub_parse_def reply_status_def)

end
